theory Spec2Isabelle
  imports Main
begin

section \<open>Library functions used by auth.go\<close>

subsection \<open>strings.ToUpper\<close>

text \<open>
  A Go string is a sequence of bytes, here a \<^typ>\<open>string\<close>. \<open>strings.ToUpper\<close> scans
  the bytes; when all of them are below \<open>utf8.RuneSelf\<close> (128) it subtracts
  \<open>'a' - 'A'\<close> from every byte between \<open>'a'\<close> and \<open>'z'\<close>, and otherwise it returns
  \<open>strings.Map(unicode.ToUpper, s)\<close>. The Unicode case tables are not reproduced:
  the second branch is the parameter \<open>unicodeUpper\<close>.
\<close>

definition RuneSelf :: int where
  "RuneSelf = 128"

definition isASCII :: "string \<Rightarrow> bool" where
  "isASCII s = list_all (\<lambda>c. (of_char c :: int) < RuneSelf) s"

definition upperByte :: "char \<Rightarrow> char" where
  "upperByte c =
     (if (97::int) \<le> of_char c \<and> (of_char c :: int) \<le> 122
      then char_of ((of_char c :: int) - 32) else c)"

definition ToUpper :: "(string \<Rightarrow> string) \<Rightarrow> string \<Rightarrow> string" where
  "ToUpper unicodeUpper s = (if isASCII s then map upperByte s else unicodeUpper s)"

subsection \<open>strconv.Atoi\<close>

datatype strconvErr = ErrSyntax | ErrRange

text \<open>
  \<open>strconv.Atoi\<close> on a platform whose \<open>int\<close> has 64 bits. The digits are folded
  into an unsigned 64-bit accumulator, byte by byte: a byte that is no decimal digit
  ends the scan with \<open>ErrSyntax\<close>, an accumulator that would leave 64 bits ends it
  with \<open>ErrRange\<close>, whichever comes first. The sign is taken off before, and the
  signed range is checked after.
\<close>

definition isDigit :: "char \<Rightarrow> bool" where
  "isDigit c = ((48::int) \<le> of_char c \<and> (of_char c :: int) \<le> 57)"

definition maxUint64 :: int where
  "maxUint64 = 2 ^ 64 - 1"

fun parseUint10 :: "string \<Rightarrow> int \<Rightarrow> strconvErr + int" where
  "parseUint10 [] n = Inr n"
| "parseUint10 (c # cs) n =
     (if \<not> isDigit c then Inl ErrSyntax
      else if n \<ge> maxUint64 div 10 + 1 then Inl ErrRange
      else if n * 10 + (of_char c - 48) > maxUint64 then Inl ErrRange
      else parseUint10 cs (n * 10 + (of_char c - 48)))"

definition stripSign :: "string \<Rightarrow> bool \<times> string" where
  "stripSign s =
     (case s of
        [] \<Rightarrow> (False, [])
      | c # cs \<Rightarrow>
          if c = CHR ''+'' then (False, cs)
          else if c = CHR ''-'' then (True, cs)
          else (False, s))"

section \<open>Data model\<close>

subsection \<open>Errors\<close>

datatype arg = IntArg int | StrArg string

text \<open>
  \<open>SnowflakeError\<close> is declared outside auth.go; these are the four fields auth.go
  sets. A field the code leaves out of the composite literal has Go's zero value.
\<close>

record SnowflakeError =
  Number :: int
  SQLState :: string
  Message :: string
  MessageArgs :: "arg list"

text \<open>
  Go's \<open>error\<close> values that reach the callers of auth.go: the driver's own
  \<open>*SnowflakeError\<close>; \<open>*strconv.NumError\<close> (function, input, cause); an error of
  package \<open>json\<close> met while decoding (\<open>*json.SyntaxError\<close>,
  \<open>*json.UnmarshalTypeError\<close>), with its text; an error that reading a response body
  gives, with its text, among them \<open>io.EOF\<close> and \<open>io.ErrUnexpectedEOF\<close>; an error
  of \<open>json.Marshal\<close>; an error of the transport. No path of auth.go wraps an error:
  the same Go value is the same value here. The transport hook \<open>FuncPost\<close> may return
  any of them.
\<close>

datatype error =
    SnowflakeErr SnowflakeError
  | NumError string string strconvErr
  | DecodeError string
  | ReadError string
  | MarshalError string
  | TransportError string

definition io_EOF :: error where
  "io_EOF = ReadError ''EOF''"

definition io_ErrUnexpectedEOF :: error where
  "io_ErrUnexpectedEOF = ReadError ''unexpected EOF''"

definition Atoi :: "string \<Rightarrow> error + int" where
  "Atoi s =
     (let (neg, ds) = stripSign s in
      if ds = [] then Inl (NumError ''Atoi'' s ErrSyntax)
      else
        (case parseUint10 ds 0 of
           Inl e \<Rightarrow> Inl (NumError ''Atoi'' s e)
         | Inr un \<Rightarrow>
             if \<not> neg \<and> un \<ge> 2 ^ 63 then Inl (NumError ''Atoi'' s ErrRange)
             else if neg \<and> un > 2 ^ 63 then Inl (NumError ''Atoi'' s ErrRange)
             else Inr (if neg then - un else un)))"

subsection \<open>Request\<close>

record authRequestClientEnvironment =
  Application :: string
  Os :: string
  OsVersion :: string

record authRequestData =
  ClientAppID :: string
  ClientAppVersion :: string
  SvnRevision :: string
  AccountName :: string
  LoginName :: string
  Password :: string
  RawSAMLResponse :: string
  ExtAuthnDuoMethod :: string
  Passcode :: string
  Authenticator :: string
  SessionParameters :: "string \<rightharpoonup> string"
  ClientEnvironment :: authRequestClientEnvironment
  BrowserModeRedirectPort :: string
  ProofKey :: string
  Token :: string

record authRequest =
  Data :: authRequestData

subsection \<open>Response\<close>

text \<open>
  A JSON value decoded into \<open>interface{}\<close>; a number keeps its literal.
\<close>

datatype jsonValue =
    JNull
  | JBool bool
  | JNumber string
  | JString string
  | JArray "jsonValue list"
  | JObject "(string \<times> jsonValue) list"

record nameValueParameter =
  Name :: string
  Value :: jsonValue

record authResponseSessionInfo =
  DatabaseName :: string
  SchemaName :: string
  WarehouseName :: string
  RoleName :: string

record authResponseMain =
  Token :: string
  ValidityInSeconds :: int
  MasterToken :: string
  MasterValidityInSeconds :: int
  DisplayUserName :: string
  ServerVersion :: string
  FirstLogin :: bool
  RemMeToken :: string
  RemMeValidityInSeconds :: int
  HealthCheckInterval :: int
  NewClientForUpgrade :: string
  SessionID :: int
  Parameters :: "nameValueParameter list"
  SessionInfo :: authResponseSessionInfo
  TokenURL :: string
  SSOURL :: string
  ProofKey :: string

record authResponse =
  Data :: authResponseMain
  Message :: string
  Code :: string
  Success :: bool

subsection \<open>Connection\<close>

text \<open>
  The fields of \<open>Config\<close> that \<open>authenticate\<close> reads. \<open>Params\<close> is a Go
  \<open>map[string]*string\<close>: the list holds its entries in the order in which the
  \<open>range\<close> loop visits them (any order is possible, the keys are distinct), and a
  \<open>nil\<close> pointer is \<open>None\<close>.
\<close>

record Config =
  Account :: string
  User :: string
  Password :: string
  Database :: string
  Schema :: string
  Warehouse :: string
  Role :: string
  Application :: string
  Authenticator :: string
  Passcode :: string
  PasscodeInPassword :: bool
  Token :: string
  Params :: "(string \<times> string option) list"

text \<open>
  The data fields of \<open>snowflakeRestful\<close> that auth.go reads or writes; \<open>Token\<close>,
  \<open>MasterToken\<close> and \<open>SessionID\<close> are the session record. Its function-valued
  fields \<open>FuncPost\<close> and \<open>FuncPostAuth\<close> are passed beside the record.
\<close>

record snowflakeRestful =
  Host :: string
  Port :: int
  Protocol :: string
  LoginTimeout :: int
  Authenticator :: string
  Token :: string
  MasterToken :: string
  SessionID :: int

record snowflakeConn =
  cfg :: Config
  rest :: snowflakeRestful

subsection \<open>Transport\<close>

type_synonym url_Values = "string \<rightharpoonup> string list"

type_synonym headers = "string \<rightharpoonup> string"

definition Add :: "url_Values \<Rightarrow> string \<Rightarrow> string \<Rightarrow> url_Values" where
  "Add v key val = v(key \<mapsto> (case v key of None \<Rightarrow> [] | Some vs \<Rightarrow> vs) @ [val])"

text \<open>
  The body of an HTTP response is a stream: the bytes it delivers, and the error that
  ends it when it does not end with EOF.
\<close>

datatype body = Stream string "string option"

record http_Response =
  StatusCode :: int
  Header :: "string \<rightharpoonup> string list"
  Body :: body

type_synonym funcPost =
  "snowflakeRestful \<Rightarrow> string \<Rightarrow> headers \<Rightarrow> string \<Rightarrow> int \<Rightarrow> bool \<Rightarrow> error + http_Response"

type_synonym funcPostAuth =
  "snowflakeRestful \<Rightarrow> url_Values \<Rightarrow> headers \<Rightarrow> string \<Rightarrow> int \<Rightarrow> error + authResponse"

definition ReadAll :: "body \<Rightarrow> error + string" where
  "ReadAll b = (case b of Stream bs None \<Rightarrow> Inr bs | Stream bs (Some e) \<Rightarrow> Inl (ReadError e))"

text \<open>
  What package \<open>json\<close> makes of the bytes a decoder has buffered, given whether the
  stream has ended with EOF behind them: they are a proper prefix of a JSON value; or
  they are no JSON (the text of the \<open>*json.SyntaxError\<close>); or they hold a complete
  value, and unmarshalling it into an \<open>authResponse\<close> gives the text of a
  \<open>*json.UnmarshalTypeError\<close> or the response.
\<close>

datatype scanned = NeedMore | Invalid string | Value "string + authResponse"

subsection \<open>What the file takes from outside\<close>

text \<open>
  Constants and functions that auth.go uses and other files or the Go runtime define:
  the driver's version, error numbers, SQL states, message formats and header values;
  the strings of package \<open>runtime\<close>; the Unicode branch of \<open>strings.ToUpper\<close>;
  \<open>json.Marshal\<close> of a request, the scanner and the unmarshaller of package
  \<open>json\<close> (\<open>json_scan\<close>, below), \<open>url.Values.Encode\<close>, the decimal text \<open>%d\<close>
  prints, and the text of the next \<open>uuid.New()\<close>.
\<close>

record env =
  SnowflakeGoDriverVersion :: string
  ErrCodeServiceUnavailable :: int
  ErrCodeFailedToConnect :: int
  ErrFailedToAuth :: int
  SQLStateConnectionWasNotEstablished :: string
  SQLStateConnectionRejected :: string
  errMsgServiceUnavailable :: string
  errMsgFailedToConnect :: string
  errMsgFailedToAuth :: string
  headerContentTypeApplicationJSON :: string
  headerAcceptTypeApplicationSnowflake :: string
  runtime_Compiler :: string
  runtime_GOARCH :: string
  runtime_GOOS :: string
  runtime_Version :: string
  unicodeUpper :: "string \<Rightarrow> string"
  json_Marshal :: "authRequest \<Rightarrow> error + string"
  json_scan :: "string \<Rightarrow> bool \<Rightarrow> scanned"
  Encode :: "url_Values \<Rightarrow> string"
  fmt_d :: "int \<Rightarrow> string"
  uuid_New :: string

subsection \<open>json.Decoder.Decode\<close>

text \<open>
  \<open>json.NewDecoder(resp.Body).Decode(&respd)\<close>. The decoder scans what it has
  buffered before it looks at the error of the read that filled the buffer. Bytes that
  are all JSON white space are no value yet: the decoder returns the reader's error as
  it is, which is \<open>io.EOF\<close> when the stream just ends. Bytes that are a proper prefix
  of a value: the reader's error as it is, and \<open>io.ErrUnexpectedEOF\<close> when the
  stream just ends. A syntax error and an unmarshalling error are the package's own.
\<close>

definition isSpace :: "char \<Rightarrow> bool" where
  "isSpace c = (c = CHR '' '' \<or> c = CHR 0x09 \<or> c = CHR 0x0D \<or> c = CHR 0x0A)"

definition json_Decode :: "env \<Rightarrow> body \<Rightarrow> error + authResponse" where
  "json_Decode E b =
     (case b of Stream bs ending \<Rightarrow>
        if list_all isSpace bs then
          (case ending of None \<Rightarrow> Inl io_EOF | Some e \<Rightarrow> Inl (ReadError e))
        else
          (case json_scan E bs (ending = None) of
             NeedMore \<Rightarrow>
               (case ending of
                  None \<Rightarrow> Inl io_ErrUnexpectedEOF
                | Some e \<Rightarrow> Inl (ReadError e))
           | Invalid e \<Rightarrow> Inl (DecodeError e)
           | Value r \<Rightarrow>
               (case r of Inl e \<Rightarrow> Inl (DecodeError e) | Inr respd \<Rightarrow> Inr respd)))"

section \<open>auth.go\<close>

definition clientType :: string where
  "clientType = ''Go''"

definition authenticatorExternalBrowser :: string where
  "authenticatorExternalBrowser = ''EXTERNALBROWSER''"

definition authenticatorOAuth :: string where
  "authenticatorOAuth = ''OAUTH''"

definition authenticatorSnowflake :: string where
  "authenticatorSnowflake = ''SNOWFLAKE''"

definition authenticatorOkta :: string where
  "authenticatorOkta = ''OKTA''"

definition platform :: "env \<Rightarrow> string" where
  "platform E = runtime_Compiler E @ ''-'' @ runtime_GOARCH E"

definition operatingSystem :: "env \<Rightarrow> string" where
  "operatingSystem E = runtime_GOOS E"

definition userAgent :: "env \<Rightarrow> string" where
  "userAgent E =
     clientType @ ''/'' @ SnowflakeGoDriverVersion E @ ''/'' @ runtime_Version E @ ''/'' @ platform E"

subsection \<open>postAuth\<close>

definition StatusOK :: int where "StatusOK = 200"
definition StatusUnauthorized :: int where "StatusUnauthorized = 401"
definition StatusForbidden :: int where "StatusForbidden = 403"
definition StatusBadGateway :: int where "StatusBadGateway = 502"
definition StatusServiceUnavailable :: int where "StatusServiceUnavailable = 503"
definition StatusGatewayTimeout :: int where "StatusGatewayTimeout = 504"

definition fullURL :: "env \<Rightarrow> snowflakeRestful \<Rightarrow> url_Values \<Rightarrow> string" where
  "fullURL E sr params =
     Protocol sr @ ''://'' @ Host sr @ '':'' @ fmt_d E (Port sr) @
     ''/session/v1/login-request?'' @ Encode E (Add params ''requestId'' (uuid_New E))"

text \<open>
  \<open>postAuth\<close> adds the request identifier to the caller's \<open>params\<close>, posts, and
  classifies the response by its status. The caller does not read \<open>params\<close> again,
  so the model returns the result only.
\<close>

definition postAuth :: "env \<Rightarrow> funcPost \<Rightarrow> funcPostAuth" where
  "postAuth E FuncPost sr params hdrs body timeout =
     (let url = fullURL E sr params in
      case FuncPost sr url hdrs body timeout True of
        Inl err \<Rightarrow> Inl err
      | Inr resp \<Rightarrow>
          if StatusCode resp = StatusOK then
            (case json_Decode E (Body resp) of
               Inl err \<Rightarrow> Inl err
             | Inr respd \<Rightarrow> Inr respd)
          else if StatusCode resp = StatusBadGateway
                \<or> StatusCode resp = StatusServiceUnavailable
                \<or> StatusCode resp = StatusGatewayTimeout then
            Inl (SnowflakeErr \<lparr>
              Number = ErrCodeServiceUnavailable E,
              SQLState = SQLStateConnectionWasNotEstablished E,
              Message = errMsgServiceUnavailable E,
              MessageArgs = [IntArg (StatusCode resp), StrArg url]\<rparr>)
          else if StatusCode resp = StatusUnauthorized
                \<or> StatusCode resp = StatusForbidden then
            Inl (SnowflakeErr \<lparr>
              Number = ErrCodeFailedToConnect E,
              SQLState = SQLStateConnectionRejected E,
              Message = errMsgFailedToConnect E,
              MessageArgs = [IntArg (StatusCode resp), StrArg url]\<rparr>)
          else
            (case ReadAll (Body resp) of
               Inl err \<Rightarrow> Inl err
             | Inr b \<Rightarrow>
                 Inl (SnowflakeErr \<lparr>
                   Number = ErrFailedToAuth E,
                   SQLState = SQLStateConnectionRejected E,
                   Message = errMsgFailedToAuth E,
                   MessageArgs = [IntArg (StatusCode resp), StrArg url]\<rparr>)))"

subsection \<open>getHeaders\<close>

definition getHeaders :: "env \<Rightarrow> headers" where
  "getHeaders E =
     ((Map.empty(''Content-Type'' \<mapsto> headerContentTypeApplicationJSON E))
        (''accept'' \<mapsto> headerAcceptTypeApplicationSnowflake E))
        (''User-Agent'' \<mapsto> userAgent E)"

subsection \<open>authenticate\<close>

text \<open>
  The loop over \<open>sc.cfg.Params\<close>: every key is stored upper-cased, a later entry
  overwrites an earlier one with the same upper-cased key, and dereferencing a \<open>nil\<close>
  value panics (\<open>None\<close>).
\<close>

fun sessionParameters :: "env \<Rightarrow> (string \<times> string option) list \<Rightarrow> (string \<rightharpoonup> string)
    \<Rightarrow> (string \<rightharpoonup> string) option" where
  "sessionParameters E [] m = Some m"
| "sessionParameters E ((k, v) # kvs) m =
     (case v of
        None \<Rightarrow> None
      | Some s \<Rightarrow> sessionParameters E kvs (m(ToUpper (unicodeUpper E) k \<mapsto> s)))"

text \<open>
  The request: the composite literal, then the switch on the upper-cased authenticator
  (the \<open>SNOWFLAKE\<close> case falls through to the default), then the inner switch on the
  passcode settings.
\<close>

definition requestMain :: "env \<Rightarrow> Config \<Rightarrow> string \<Rightarrow> string \<Rightarrow> (string \<rightharpoonup> string)
    \<Rightarrow> authRequestData" where
  "requestMain E c samlResponse proofKey params =
     (let clientEnvironment = \<lparr>
            authRequestClientEnvironment.Application = Config.Application c,
            Os = operatingSystem E,
            OsVersion = platform E\<rparr>;
          rm = \<lparr>
            ClientAppID = clientType,
            ClientAppVersion = SnowflakeGoDriverVersion E,
            SvnRevision = [],
            AccountName = Account c,
            LoginName = [],
            authRequestData.Password = [],
            RawSAMLResponse = [],
            ExtAuthnDuoMethod = [],
            authRequestData.Passcode = [],
            authRequestData.Authenticator = [],
            SessionParameters = params,
            ClientEnvironment = clientEnvironment,
            BrowserModeRedirectPort = [],
            authRequestData.ProofKey = [],
            authRequestData.Token = []\<rparr>;
          authenticator = ToUpper (unicodeUpper E) (Config.Authenticator c)
      in
        if authenticator = authenticatorExternalBrowser then
          rm\<lparr>authRequestData.ProofKey := proofKey,
             authRequestData.Token := samlResponse,
             LoginName := User c,
             authRequestData.Authenticator := authenticatorExternalBrowser\<rparr>
        else if authenticator = authenticatorOAuth then
          rm\<lparr>LoginName := User c,
             authRequestData.Authenticator := authenticatorOAuth,
             authRequestData.Token := Config.Token c\<rparr>
        else if authenticator = authenticatorOkta then
          rm\<lparr>RawSAMLResponse := samlResponse\<rparr>
        else
          (let rm1 = rm\<lparr>LoginName := User c,
                          authRequestData.Password := Config.Password c\<rparr>
           in
             if PasscodeInPassword c then
               rm1\<lparr>ExtAuthnDuoMethod := ''passcode''\<rparr>
             else if Config.Passcode c \<noteq> [] then
               rm1\<lparr>authRequestData.Passcode := Config.Passcode c,
                   ExtAuthnDuoMethod := ''passcode''\<rparr>
             else rm1))"

definition queryParams :: "Config \<Rightarrow> url_Values" where
  "queryParams c =
     (let p0 = Map.empty;
          p1 = (if Database c \<noteq> [] then Add p0 ''databaseName'' (Database c) else p0);
          p2 = (if Schema c \<noteq> [] then Add p1 ''schemaName'' (Schema c) else p1);
          p3 = (if Warehouse c \<noteq> [] then Add p2 ''warehouse'' (Warehouse c) else p2);
          p4 = (if Role c \<noteq> [] then Add p3 ''roleName'' (Role c) else p3)
      in p4)"

text \<open>
  The request \<open>authenticate\<close> builds and hands to \<open>json.Marshal\<close>: the upper-cased
  session parameters inside the request data, inside the envelope; \<open>None\<close> when the
  parameter loop panics.
\<close>

definition builtRequest :: "env \<Rightarrow> Config \<Rightarrow> string \<Rightarrow> string \<Rightarrow> authRequest option" where
  "builtRequest E c samlResponse proofKey =
     (case sessionParameters E (Params c) Map.empty of
        None \<Rightarrow> None
      | Some params \<Rightarrow>
          Some \<lparr>authRequest.Data = requestMain E c samlResponse proofKey params\<rparr>)"

text \<open>
  What \<open>sc.rest.FuncPostAuth\<close> returns in an attempt: \<open>None\<close> when the attempt does
  not get as far as calling it (the parameter loop panics, or \<open>json.Marshal\<close> fails).
\<close>

definition transport :: "env \<Rightarrow> funcPostAuth \<Rightarrow> snowflakeConn \<Rightarrow> string \<Rightarrow> string
    \<Rightarrow> (error + authResponse) option" where
  "transport E FuncPostAuth sc samlResponse proofKey =
     (case sessionParameters E (Params (cfg sc)) Map.empty of
        None \<Rightarrow> None
      | Some params \<Rightarrow>
          (case json_Marshal E \<lparr>authRequest.Data =
                  requestMain E (cfg sc) samlResponse proofKey params\<rparr> of
             Inl err \<Rightarrow> None
           | Inr jsonBody \<Rightarrow>
               Some (FuncPostAuth (rest sc) (queryParams (cfg sc)) (getHeaders E) jsonBody
                       (LoginTimeout (rest sc)))))"

text \<open>
  \<open>authenticate\<close> returns \<open>None\<close> when it panics, and otherwise \<open>sc.rest\<close> as it
  leaves it together with its two results: the error, or the response's data.
\<close>

definition authenticate :: "env \<Rightarrow> funcPostAuth \<Rightarrow> snowflakeConn \<Rightarrow> string \<Rightarrow> string
    \<Rightarrow> (snowflakeRestful \<times> (error + authResponseMain)) option" where
  "authenticate E FuncPostAuth sc samlResponse proofKey =
     (case sessionParameters E (Params (cfg sc)) Map.empty of
        None \<Rightarrow> None
      | Some params \<Rightarrow>
          (case json_Marshal E \<lparr>authRequest.Data =
                  requestMain E (cfg sc) samlResponse proofKey params\<rparr> of
             Inl err \<Rightarrow> Some (rest sc, Inl err)
           | Inr jsonBody \<Rightarrow>
               (case FuncPostAuth (rest sc) (queryParams (cfg sc)) (getHeaders E) jsonBody
                       (LoginTimeout (rest sc)) of
                  Inl err \<Rightarrow> Some (rest sc, Inl err)
                | Inr respd \<Rightarrow>
                    if \<not> Success respd then
                      (let rest1 = (rest sc)\<lparr>
                             snowflakeRestful.Token := [],
                             snowflakeRestful.MasterToken := [],
                             snowflakeRestful.SessionID := - 1\<rparr>
                       in case Atoi (Code respd) of
                            Inl err \<Rightarrow> Some (rest1, Inl err)
                          | Inr code \<Rightarrow>
                              Some (rest1, Inl (SnowflakeErr \<lparr>
                                Number = code,
                                SQLState = SQLStateConnectionRejected E,
                                SnowflakeError.Message = authResponse.Message respd,
                                MessageArgs = []\<rparr>)))
                    else
                      Some ((rest sc)\<lparr>
                              snowflakeRestful.Token :=
                                authResponseMain.Token (authResponse.Data respd),
                              snowflakeRestful.MasterToken :=
                                authResponseMain.MasterToken (authResponse.Data respd),
                              snowflakeRestful.SessionID :=
                                authResponseMain.SessionID (authResponse.Data respd)\<rparr>,
                            Inr (authResponse.Data respd)))))"

section \<open>Example inputs\<close>

text \<open>
  Concrete values on which the theorems below are instantiated: an environment, a
  connection whose session record is the zero value of a fresh \<open>snowflakeRestful\<close>,
  three responses of the service, and a \<open>FuncPostAuth\<close> that answers every call with
  a given result.
\<close>

definition example_env :: env where
  "example_env = \<lparr>
     SnowflakeGoDriverVersion = ''1.1.5'',
     ErrCodeServiceUnavailable = 260007,
     ErrCodeFailedToConnect = 260008,
     ErrFailedToAuth = 261004,
     SQLStateConnectionWasNotEstablished = ''08001'',
     SQLStateConnectionRejected = ''08004'',
     errMsgServiceUnavailable = ''service is unavailable. HTTP: %v, URL: %v'',
     errMsgFailedToConnect = ''failed to connect to db. HTTP: %v, URL: %v'',
     errMsgFailedToAuth = ''failed to auth for unknown reason. HTTP: %v, URL: %v'',
     headerContentTypeApplicationJSON = ''application/json'',
     headerAcceptTypeApplicationSnowflake = ''application/snowflake'',
     runtime_Compiler = ''gc'',
     runtime_GOARCH = ''amd64'',
     runtime_GOOS = ''linux'',
     runtime_Version = ''go1.11'',
     unicodeUpper = (\<lambda>s. s),
     json_Marshal = (\<lambda>r. Inr ''{}''),
     json_scan = (\<lambda>bs eof. NeedMore),
     Encode = (\<lambda>v. ''requestId=r1''),
     fmt_d = (\<lambda>n. ''443''),
     uuid_New = ''r1''\<rparr>"

definition example_config :: Config where
  "example_config = \<lparr>
     Account = ''acme'',
     User = ''jane'',
     Config.Password = ''secret'',
     Database = [],
     Schema = [],
     Warehouse = [],
     Role = [],
     Config.Application = ''app'',
     Config.Authenticator = [],
     Config.Passcode = [],
     PasscodeInPassword = False,
     Config.Token = [],
     Params = []\<rparr>"

definition example_rest :: snowflakeRestful where
  "example_rest = \<lparr>
     Host = ''acme.snowflakecomputing.com'',
     Port = 443,
     Protocol = ''https'',
     LoginTimeout = 60,
     snowflakeRestful.Authenticator = [],
     snowflakeRestful.Token = [],
     snowflakeRestful.MasterToken = [],
     snowflakeRestful.SessionID = 0\<rparr>"

definition example_conn :: snowflakeConn where
  "example_conn = \<lparr>cfg = example_config, rest = example_rest\<rparr>"

definition example_data :: authResponseMain where
  "example_data = \<lparr>
     authResponseMain.Token = ''T1'',
     ValidityInSeconds = 3600,
     authResponseMain.MasterToken = ''M1'',
     MasterValidityInSeconds = 14400,
     DisplayUserName = ''JANE'',
     ServerVersion = ''3.0'',
     FirstLogin = False,
     RemMeToken = [],
     RemMeValidityInSeconds = 0,
     HealthCheckInterval = 45,
     NewClientForUpgrade = [],
     authResponseMain.SessionID = 7,
     Parameters = [],
     SessionInfo = \<lparr>DatabaseName = [], SchemaName = [], WarehouseName = [], RoleName = []\<rparr>,
     TokenURL = [],
     SSOURL = [],
     authResponseMain.ProofKey = []\<rparr>"

definition no_data :: authResponseMain where
  "no_data = \<lparr>
     authResponseMain.Token = [],
     ValidityInSeconds = 0,
     authResponseMain.MasterToken = [],
     MasterValidityInSeconds = 0,
     DisplayUserName = [],
     ServerVersion = [],
     FirstLogin = False,
     RemMeToken = [],
     RemMeValidityInSeconds = 0,
     HealthCheckInterval = 0,
     NewClientForUpgrade = [],
     authResponseMain.SessionID = 0,
     Parameters = [],
     SessionInfo = \<lparr>DatabaseName = [], SchemaName = [], WarehouseName = [], RoleName = []\<rparr>,
     TokenURL = [],
     SSOURL = [],
     authResponseMain.ProofKey = []\<rparr>"

definition example_success :: authResponse where
  "example_success = \<lparr>authResponse.Data = example_data, authResponse.Message = [],
     Code = [], Success = True\<rparr>"

definition example_rejection :: authResponse where
  "example_rejection = \<lparr>authResponse.Data = no_data, authResponse.Message = ''bad creds'',
     Code = ''390100'', Success = False\<rparr>"

definition example_bad_code :: authResponse where
  "example_bad_code = \<lparr>authResponse.Data = no_data, authResponse.Message = ''bad creds'',
     Code = ''abc'', Success = False\<rparr>"

definition answer :: "error + authResponse \<Rightarrow> funcPostAuth" where
  "answer r sr params hdrs body timeout = r"

text \<open>
  A \<open>FuncPost\<close> that answers every call with a given result, and responses of the
  transport: a 503, a 401, a 500 whose body is read to its end, a 500 whose body breaks
  off, a 200, a 200 without a body, and a 200 whose body breaks off before its first byte.
\<close>

definition reply :: "error + http_Response \<Rightarrow> funcPost" where
  "reply r sr url hdrs body timeout raise4XX = r"

definition response_503 :: http_Response where
  "response_503 = \<lparr>StatusCode = 503, Header = Map.empty, Body = Stream [] None\<rparr>"

definition response_401 :: http_Response where
  "response_401 = \<lparr>StatusCode = 401, Header = Map.empty, Body = Stream [] None\<rparr>"

definition response_500 :: http_Response where
  "response_500 = \<lparr>StatusCode = 500, Header = Map.empty, Body = Stream ''oops'' None\<rparr>"

definition response_500_broken :: http_Response where
  "response_500_broken =
     \<lparr>StatusCode = 500, Header = Map.empty, Body = Stream ''oo'' (Some ''unexpected EOF'')\<rparr>"

definition response_200 :: http_Response where
  "response_200 = \<lparr>StatusCode = 200, Header = Map.empty, Body = Stream ''{'' None\<rparr>"

definition response_200_empty :: http_Response where
  "response_200_empty = \<lparr>StatusCode = 200, Header = Map.empty, Body = Stream [] None\<rparr>"

definition response_200_broken :: http_Response where
  "response_200_broken =
     \<lparr>StatusCode = 200, Header = Map.empty, Body = Stream [] (Some ''unexpected EOF'')\<rparr>"

definition example_url :: string where
  "example_url =
     ''https://acme.snowflakecomputing.com:443/session/v1/login-request?requestId=r1''"

text \<open>
  An environment in which the body of a response decodes, and configurations for the
  other authenticators and for the two passcode settings.
\<close>

definition decoding_env :: env where
  "decoding_env = example_env\<lparr>json_scan := (\<lambda>bs eof. Value (Inr example_success))\<rparr>"

definition oauth_config :: Config where
  "oauth_config = example_config\<lparr>Config.Authenticator := ''oauth'', Config.Token := ''tok''\<rparr>"

definition okta_config :: Config where
  "okta_config = example_config\<lparr>Config.Authenticator := ''Okta''\<rparr>"

definition browser_config :: Config where
  "browser_config = example_config\<lparr>Config.Authenticator := ''externalBrowser''\<rparr>"

definition passcode_config :: Config where
  "passcode_config = example_config\<lparr>Config.Passcode := ''123456''\<rparr>"

definition passcode_in_password_config :: Config where
  "passcode_in_password_config = passcode_config\<lparr>PasscodeInPassword := True\<rparr>"




section \<open>Evaluation rules\<close>

lemmas ex = example_env_def example_config_def example_rest_def example_conn_def
  example_data_def no_data_def example_success_def example_rejection_def example_bad_code_def
  answer_def

lemmas exr = reply_def response_503_def response_401_def response_500_def
  response_500_broken_def response_200_def example_url_def

lemmas status = StatusOK_def StatusUnauthorized_def StatusForbidden_def StatusBadGateway_def
  StatusServiceUnavailable_def StatusGatewayTimeout_def

lemmas schemes = authenticatorExternalBrowser_def authenticatorOAuth_def
  authenticatorSnowflake_def authenticatorOkta_def

lemmas up = ToUpper_def isASCII_def upperByte_def RuneSelf_def char_of_def

lemmas atoi = Atoi_def stripSign_def isDigit_def maxUint64_def

lemma Atoi_examples:
  "Atoi ''390100'' = Inr 390100"
  "Atoi ''abc'' = Inl (NumError ''Atoi'' ''abc'' ErrSyntax)"
  "Atoi [] = Inl (NumError ''Atoi'' [] ErrSyntax)"
  "Atoi ''-1'' = Inr (- 1)"
  "Atoi ''9223372036854775808'' = Inl (NumError ''Atoi'' ''9223372036854775808'' ErrRange)"
  by (simp_all add: atoi)

lemma ToUpper_examples:
  "ToUpper u ''warehouse'' = ''WAREHOUSE''"
  "ToUpper u ''oauth'' = ''OAUTH''"
  "ToUpper u ''Okta'' = ''OKTA''"
  "ToUpper u ''externalBrowser'' = ''EXTERNALBROWSER''"
  "ToUpper u ''snowflake'' = ''SNOWFLAKE''"
  "ToUpper u [] = []"
  by (simp_all add: up)

lemma example_fullURL: "fullURL example_env example_rest params = example_url"
  by (simp add: fullURL_def ex exr)

lemma example_marshal: "json_Marshal example_env r = Inr ''{}''"
  by (simp add: example_env_def)

lemma transport_answer: "transport example_env (answer r) example_conn [] [] = Some r"
  by (simp add: transport_def ex)

section \<open>The session negotiator\<close>

text \<open>
  Claim C1. When the transport succeeds and the response has \<open>Success = false\<close> and a
  code that is no integer, the claim wants a \<open>SnowflakeError\<close> with the connection-rejected
  SQL state, a sentinel number and the server's message. The code assigns the sentinel
  \<open>-1\<close> to \<open>code\<close> and then returns the error of \<open>strconv.Atoi\<close> instead: on the
  response \<open>{success: false, code: "abc", message: "bad creds"}\<close> the caller gets the
  \<open>NumError\<close>, and neither the sentinel nor the message. The session record is cleared.
\<close>

theorem authenticate_unparseable_code:
  "authenticate example_env (answer (Inr example_bad_code)) example_conn [] [] =
     Some (example_rest\<lparr>snowflakeRestful.Token := [], snowflakeRestful.MasterToken := [],
             snowflakeRestful.SessionID := - 1\<rparr>,
           Inl (NumError ''Atoi'' ''abc'' ErrSyntax))"
  by (simp add: authenticate_def ex Atoi_examples)

text \<open>
  Claim C2, as stated: after any attempt the session record is populated from the
  response or cleared. It fails when the transport fails: on a fresh connection
  (\<open>Token = ""\<close>, \<open>MasterToken = ""\<close>, \<open>SessionID = 0\<close>) whose transport times out there is
  no response, and the record stays as it was, which is not the cleared record.
\<close>

theorem authenticate_record_counterexample:
  "authenticate example_env (answer (Inl (TransportError ''timeout''))) example_conn [] [] =
     Some (example_rest, Inl (TransportError ''timeout''))
   \<and> transport example_env (answer (Inl (TransportError ''timeout''))) example_conn [] [] =
     Some (Inl (TransportError ''timeout''))
   \<and> snowflakeRestful.SessionID example_rest \<noteq> - 1"
  by (simp add: authenticate_def transport_def ex)

text \<open>
  Claim C2, amended: when an attempt returns, \<open>sc.rest\<close> is exactly as before if
  \<open>FuncPostAuth\<close> was not reached or returned an error; it has the response's token,
  master token and session identifier, all three, if the response has
  \<open>Success = true\<close>; and it has \<open>""\<close>, \<open>""\<close> and \<open>-1\<close>, all three, if the response has
  \<open>Success = false\<close>, whatever the record held before. No other field changes.
\<close>

theorem authenticate_record:
  assumes "authenticate E FuncPostAuth sc samlResponse proofKey = Some (rest', res)"
  shows "(case transport E FuncPostAuth sc samlResponse proofKey of
            None \<Rightarrow> rest' = rest sc
          | Some (Inl err) \<Rightarrow> rest' = rest sc
          | Some (Inr respd) \<Rightarrow>
              if Success respd then
                rest' = (rest sc)\<lparr>
                  snowflakeRestful.Token := authResponseMain.Token (authResponse.Data respd),
                  snowflakeRestful.MasterToken :=
                    authResponseMain.MasterToken (authResponse.Data respd),
                  snowflakeRestful.SessionID :=
                    authResponseMain.SessionID (authResponse.Data respd)\<rparr>
              else
                rest' = (rest sc)\<lparr>
                  snowflakeRestful.Token := [],
                  snowflakeRestful.MasterToken := [],
                  snowflakeRestful.SessionID := - 1\<rparr>)"
  using assms
  by (auto simp: authenticate_def transport_def Let_def split: option.splits sum.splits if_splits)

theorem authenticate_record_witness:
  "authenticate example_env (answer (Inr example_rejection)) example_conn [] [] =
     Some (example_rest\<lparr>snowflakeRestful.Token := [], snowflakeRestful.MasterToken := [],
             snowflakeRestful.SessionID := - 1\<rparr>,
           Inl (SnowflakeErr \<lparr>Number = 390100, SQLState = ''08004'',
                  SnowflakeError.Message = ''bad creds'', MessageArgs = []\<rparr>))
   \<and> transport example_env (answer (Inr example_rejection)) example_conn [] [] =
     Some (Inr example_rejection)
   \<and> \<not> Success example_rejection"
proof -
  have a: "authenticate example_env (answer (Inr example_rejection)) example_conn [] [] =
     Some (example_rest\<lparr>snowflakeRestful.Token := [], snowflakeRestful.MasterToken := [],
             snowflakeRestful.SessionID := - 1\<rparr>,
           Inl (SnowflakeErr \<lparr>Number = 390100, SQLState = ''08004'',
                  SnowflakeError.Message = ''bad creds'', MessageArgs = []\<rparr>))"
    by (simp add: authenticate_def ex Atoi_examples)
  have t: "transport example_env (answer (Inr example_rejection)) example_conn [] [] =
     Some (Inr example_rejection)"
    by (rule transport_answer)
  have s: "\<not> Success example_rejection"
    by (simp add: example_rejection_def)
  from authenticate_record [OF a] t s a show ?thesis
    by simp
qed

text \<open>
  Claim C5. When \<open>FuncPostAuth\<close> returns a response with \<open>Success = true\<close>,
  \<open>authenticate\<close> sets the record's token, master token and session identifier to those
  of the response's data, leaves the other fields of \<open>sc.rest\<close> alone, and returns the
  response's data.
\<close>

theorem authenticate_success:
  assumes "transport E FuncPostAuth sc samlResponse proofKey = Some (Inr respd)"
    and "Success respd"
  shows "authenticate E FuncPostAuth sc samlResponse proofKey =
     Some ((rest sc)\<lparr>
             snowflakeRestful.Token := authResponseMain.Token (authResponse.Data respd),
             snowflakeRestful.MasterToken :=
               authResponseMain.MasterToken (authResponse.Data respd),
             snowflakeRestful.SessionID :=
               authResponseMain.SessionID (authResponse.Data respd)\<rparr>,
           Inr (authResponse.Data respd))"
  using assms
  by (auto simp: authenticate_def transport_def split: option.splits sum.splits)

theorem authenticate_success_witness:
  "authenticate example_env (answer (Inr example_success)) example_conn [] [] =
     Some (example_rest\<lparr>snowflakeRestful.Token := ''T1'',
             snowflakeRestful.MasterToken := ''M1'',
             snowflakeRestful.SessionID := 7\<rparr>,
           Inr example_data)"
proof -
  have t: "transport example_env (answer (Inr example_success)) example_conn [] [] =
     Some (Inr example_success)"
    by (rule transport_answer)
  have s: "Success example_success"
    by (simp add: example_success_def)
  from authenticate_success [OF t s] show ?thesis
    by (simp add: example_success_def example_data_def example_conn_def)
qed

text \<open>
  Claim C8. When \<open>FuncPostAuth\<close> returns an error, whatever it is, \<open>authenticate\<close>
  returns that error and leaves \<open>sc.rest\<close>, and so the session record, as it was. The
  instance below runs \<open>postAuth\<close> as the transport on a 503.
\<close>

theorem authenticate_transport_failure:
  assumes "transport E FuncPostAuth sc samlResponse proofKey = Some (Inl err)"
  shows "authenticate E FuncPostAuth sc samlResponse proofKey = Some (rest sc, Inl err)"
  using assms
  by (auto simp: authenticate_def transport_def split: option.splits sum.splits)

theorem authenticate_transport_failure_witness:
  "authenticate example_env (postAuth example_env (reply (Inr response_503))) example_conn
     [] [] =
     Some (example_rest,
           Inl (SnowflakeErr \<lparr>Number = 260007, SQLState = ''08001'',
                  SnowflakeError.Message = ''service is unavailable. HTTP: %v, URL: %v'',
                  MessageArgs = [IntArg 503, StrArg example_url]\<rparr>))"
proof -
  have p: "postAuth example_env (reply (Inr response_503)) example_rest params hdrs body t =
     Inl (SnowflakeErr \<lparr>Number = 260007, SQLState = ''08001'',
            SnowflakeError.Message = ''service is unavailable. HTTP: %v, URL: %v'',
            MessageArgs = [IntArg 503, StrArg example_url]\<rparr>)" for params hdrs body t
    by (simp add: postAuth_def Let_def example_fullURL status reply_def response_503_def)
       (simp add: example_env_def)
  have t: "transport example_env (postAuth example_env (reply (Inr response_503)))
      example_conn [] [] =
     Some (Inl (SnowflakeErr \<lparr>Number = 260007, SQLState = ''08001'',
                  SnowflakeError.Message = ''service is unavailable. HTTP: %v, URL: %v'',
                  MessageArgs = [IntArg 503, StrArg example_url]\<rparr>))"
    by (simp add: transport_def p example_marshal example_conn_def example_config_def)
  from authenticate_transport_failure [OF t] show ?thesis
    by (simp add: example_conn_def)
qed

section \<open>The transport invoker\<close>

text \<open>
  Claim C3, as stated: every status other than 200, 401, 403, 502, 503 and 504 yields the
  \<open>ErrFailedToAuth\<close> error. It fails when the body of such a response cannot be read
  to its end: \<open>postAuth\<close> returns the error of \<open>ioutil.ReadAll\<close> instead. Here the
  status is 500 and the body breaks off after two bytes.
\<close>

theorem postAuth_status_counterexample:
  "StatusCode response_500_broken = 500
   \<and> postAuth example_env (reply (Inr response_500_broken)) example_rest Map.empty
         (getHeaders example_env) ''{}'' 60 = Inl (ReadError ''unexpected EOF'')"
  by (simp add: postAuth_def ReadAll_def Let_def status exr)

text \<open>
  Claim C3, amended: when \<open>FuncPost\<close> returns a response, status 502, 503 or 504
  yields the \<open>ErrCodeServiceUnavailable\<close> error; 401 or 403 yields the
  \<open>ErrCodeFailedToConnect\<close> error with the connection-rejected SQL state; any other
  status but 200 yields the \<open>ErrFailedToAuth\<close> error when the body can be read to its
  end, and the read error when it cannot; each of the three errors carries the status and
  the URL. A 200 whose body decodes returns the decoded response as it is, whatever its
  \<open>Success\<close> and \<open>Code\<close>.
\<close>

theorem postAuth_status:
  assumes "FuncPost sr (fullURL E sr params) hdrs body timeout True = Inr resp"
  shows "(StatusCode resp \<in> {502, 503, 504} \<longrightarrow>
            postAuth E FuncPost sr params hdrs body timeout =
              Inl (SnowflakeErr \<lparr>
                Number = ErrCodeServiceUnavailable E,
                SQLState = SQLStateConnectionWasNotEstablished E,
                Message = errMsgServiceUnavailable E,
                MessageArgs = [IntArg (StatusCode resp), StrArg (fullURL E sr params)]\<rparr>))
       \<and> (StatusCode resp \<in> {401, 403} \<longrightarrow>
            postAuth E FuncPost sr params hdrs body timeout =
              Inl (SnowflakeErr \<lparr>
                Number = ErrCodeFailedToConnect E,
                SQLState = SQLStateConnectionRejected E,
                Message = errMsgFailedToConnect E,
                MessageArgs = [IntArg (StatusCode resp), StrArg (fullURL E sr params)]\<rparr>))
       \<and> (StatusCode resp \<notin> {200, 401, 403, 502, 503, 504} \<longrightarrow>
            (\<forall>b. ReadAll (Body resp) = Inr b \<longrightarrow>
               postAuth E FuncPost sr params hdrs body timeout =
                 Inl (SnowflakeErr \<lparr>
                   Number = ErrFailedToAuth E,
                   SQLState = SQLStateConnectionRejected E,
                   Message = errMsgFailedToAuth E,
                   MessageArgs = [IntArg (StatusCode resp), StrArg (fullURL E sr params)]\<rparr>))
          \<and> (\<forall>err. ReadAll (Body resp) = Inl err \<longrightarrow>
               postAuth E FuncPost sr params hdrs body timeout = Inl err))
       \<and> (StatusCode resp = 200 \<longrightarrow>
            (\<forall>respd. json_Decode E (Body resp) = Inr respd \<longrightarrow>
               postAuth E FuncPost sr params hdrs body timeout = Inr respd))"
  using assms
  by (simp add: postAuth_def Let_def status)

theorem postAuth_status_witness:
  "postAuth example_env (reply (Inr response_503)) example_rest Map.empty Map.empty [] 60 =
     Inl (SnowflakeErr \<lparr>Number = 260007, SQLState = ''08001'',
            SnowflakeError.Message = ''service is unavailable. HTTP: %v, URL: %v'',
            MessageArgs = [IntArg 503, StrArg example_url]\<rparr>)
   \<and> postAuth example_env (reply (Inr response_401)) example_rest Map.empty Map.empty [] 60 =
     Inl (SnowflakeErr \<lparr>Number = 260008, SQLState = ''08004'',
            SnowflakeError.Message = ''failed to connect to db. HTTP: %v, URL: %v'',
            MessageArgs = [IntArg 401, StrArg example_url]\<rparr>)
   \<and> postAuth example_env (reply (Inr response_500)) example_rest Map.empty Map.empty [] 60 =
     Inl (SnowflakeErr \<lparr>Number = 261004, SQLState = ''08004'',
            SnowflakeError.Message = ''failed to auth for unknown reason. HTTP: %v, URL: %v'',
            MessageArgs = [IntArg 500, StrArg example_url]\<rparr>)
   \<and> postAuth example_env (reply (Inr response_500_broken)) example_rest Map.empty Map.empty
         [] 60 = Inl (ReadError ''unexpected EOF'')
   \<and> postAuth decoding_env (reply (Inr response_200)) example_rest Map.empty Map.empty [] 60 =
     Inr example_success"
proof -
  have u: "fullURL example_env example_rest Map.empty = example_url"
    by (rule example_fullURL)
  have a: "postAuth example_env (reply (Inr response_503)) example_rest Map.empty Map.empty
      [] 60 =
     Inl (SnowflakeErr \<lparr>Number = 260007, SQLState = ''08001'',
            SnowflakeError.Message = ''service is unavailable. HTTP: %v, URL: %v'',
            MessageArgs = [IntArg 503, StrArg example_url]\<rparr>)"
    using postAuth_status [where FuncPost = "reply (Inr response_503)" and E = example_env
        and sr = example_rest and params = Map.empty and hdrs = Map.empty and body = "[]"
        and timeout = 60 and resp = response_503] u
    by (simp add: reply_def response_503_def) (simp add: example_env_def)
  have b: "postAuth example_env (reply (Inr response_401)) example_rest Map.empty Map.empty
      [] 60 =
     Inl (SnowflakeErr \<lparr>Number = 260008, SQLState = ''08004'',
            SnowflakeError.Message = ''failed to connect to db. HTTP: %v, URL: %v'',
            MessageArgs = [IntArg 401, StrArg example_url]\<rparr>)"
    using postAuth_status [where FuncPost = "reply (Inr response_401)" and E = example_env
        and sr = example_rest and params = Map.empty and hdrs = Map.empty and body = "[]"
        and timeout = 60 and resp = response_401] u
    by (simp add: reply_def response_401_def) (simp add: example_env_def)
  have c: "postAuth example_env (reply (Inr response_500)) example_rest Map.empty Map.empty
      [] 60 =
     Inl (SnowflakeErr \<lparr>Number = 261004, SQLState = ''08004'',
            SnowflakeError.Message = ''failed to auth for unknown reason. HTTP: %v, URL: %v'',
            MessageArgs = [IntArg 500, StrArg example_url]\<rparr>)"
    using postAuth_status [where FuncPost = "reply (Inr response_500)" and E = example_env
        and sr = example_rest and params = Map.empty and hdrs = Map.empty and body = "[]"
        and timeout = 60 and resp = response_500] u
    by (simp add: reply_def response_500_def ReadAll_def) (simp add: example_env_def)
  have d: "postAuth example_env (reply (Inr response_500_broken)) example_rest Map.empty
      Map.empty [] 60 = Inl (ReadError ''unexpected EOF'')"
    using postAuth_status [where FuncPost = "reply (Inr response_500_broken)" and E = example_env
        and sr = example_rest and params = Map.empty and hdrs = Map.empty and body = "[]"
        and timeout = 60 and resp = response_500_broken]
    by (simp add: reply_def response_500_broken_def ReadAll_def)
  have e: "postAuth decoding_env (reply (Inr response_200)) example_rest Map.empty Map.empty
      [] 60 = Inr example_success"
    using postAuth_status [where FuncPost = "reply (Inr response_200)" and E = decoding_env
        and sr = example_rest and params = Map.empty and hdrs = Map.empty and body = "[]"
        and timeout = 60 and resp = response_200]
    by (simp add: reply_def response_200_def decoding_env_def json_Decode_def isSpace_def)
  from a b c d e show ?thesis by simp
qed

lemma json_Decode_error:
  assumes "json_Decode E b = Inl err"
  shows "(\<exists>t. err = ReadError t) \<or> (\<exists>t. err = DecodeError t)"
  using assms
  by (auto simp: json_Decode_def io_EOF_def io_ErrUnexpectedEOF_def
      split: body.splits option.splits scanned.splits sum.splits if_splits)

text \<open>
  Claim C4, as stated: a 200 whose body does not decode fails with a condition of its own.
  It fails: \<open>postAuth\<close> returns the decoder's error as it is, and the decoder passes on
  the error of the body's reader. A body that breaks off before its first byte gives
  \<open>io.ErrUnexpectedEOF\<close> on a 200, and the same error on a 500, where
  \<open>ioutil.ReadAll\<close> meets it.
\<close>

theorem postAuth_decode_counterexample:
  "StatusCode response_200_broken = 200
   \<and> json_Decode example_env (Body response_200_broken) = Inl io_ErrUnexpectedEOF
   \<and> postAuth example_env (reply (Inr response_200_broken)) example_rest Map.empty Map.empty
         [] 60 = Inl io_ErrUnexpectedEOF
   \<and> postAuth example_env (reply (Inr (response_200_broken\<lparr>StatusCode := 500\<rparr>)))
         example_rest Map.empty Map.empty [] 60 = Inl io_ErrUnexpectedEOF"
  by (simp add: postAuth_def json_Decode_def ReadAll_def Let_def status reply_def
      response_200_broken_def io_ErrUnexpectedEOF_def)

text \<open>
  Claim C4, amended: when the status is 200 and the body does not decode, \<open>postAuth\<close>
  fails with the decoder's error, returned as it is: an error of the body's reader or
  of package \<open>json\<close>, hence not a \<open>SnowflakeError\<close> and neither the
  \<open>ErrFailedToAuth\<close> nor the \<open>ErrCodeFailedToConnect\<close> classification. The error is
  not reserved for this case.
\<close>

theorem postAuth_decode_error:
  assumes "FuncPost sr (fullURL E sr params) hdrs body timeout True = Inr resp"
    and "StatusCode resp = 200"
    and "json_Decode E (Body resp) = Inl err"
  shows "postAuth E FuncPost sr params hdrs body timeout = Inl err
       \<and> ((\<exists>t. err = ReadError t) \<or> (\<exists>t. err = DecodeError t))
       \<and> (\<forall>se. postAuth E FuncPost sr params hdrs body timeout \<noteq> Inl (SnowflakeErr se))"
proof -
  from assms have p: "postAuth E FuncPost sr params hdrs body timeout = Inl err"
    by (simp add: postAuth_def Let_def status)
  from json_Decode_error [OF assms(3)]
  have k: "(\<exists>t. err = ReadError t) \<or> (\<exists>t. err = DecodeError t)" .
  from p k show ?thesis by auto
qed

theorem postAuth_decode_error_witness:
  "postAuth example_env (reply (Inr response_200_empty)) example_rest Map.empty Map.empty
     [] 60 = Inl io_EOF"
proof -
  have r: "reply (Inr response_200_empty) example_rest
      (fullURL example_env example_rest Map.empty) Map.empty [] 60 True =
      Inr response_200_empty"
    by (simp add: reply_def)
  have s: "StatusCode response_200_empty = 200"
    by (simp add: response_200_empty_def)
  have d: "json_Decode example_env (Body response_200_empty) = Inl io_EOF"
    by (simp add: json_Decode_def response_200_empty_def)
  from postAuth_decode_error [where FuncPost = "reply (Inr response_200_empty)"
      and E = example_env and sr = example_rest and params = Map.empty and hdrs = Map.empty
      and body = "[]" and timeout = 60 and resp = response_200_empty, OF r s d]
  show ?thesis
    by simp
qed

section \<open>The request builder\<close>

lemmas configs = oauth_config_def okta_config_def browser_config_def passcode_config_def
  passcode_in_password_config_def example_config_def

lemma example_upper: "ToUpper (unicodeUpper example_env) s = ToUpper (\<lambda>s. s) s"
  by (simp add: example_env_def)

text \<open>
  Claim C6. With the authenticator upper-cased: an \<open>OAUTH\<close> request has no password,
  SAML response, proof key, passcode or duo method; an \<open>OKTA\<close> request has the SAML
  response and none of login name, password, passcode, duo method, authenticator, proof
  key, token and redirect port; an \<open>EXTERNALBROWSER\<close> request has no password, SAML
  response, passcode or duo method; any other authenticator gives the default request,
  with the password and without SAML response, proof key and token; so a request with
  a password is a default request.
\<close>

theorem requestMain_scheme_fields:
  fixes E c samlResponse proofKey params
  defines "rm \<equiv> requestMain E c samlResponse proofKey params"
    and "authenticator \<equiv> ToUpper (unicodeUpper E) (Config.Authenticator c)"
  shows "(authenticator = ''OAUTH'' \<longrightarrow>
            authRequestData.Password rm = [] \<and> RawSAMLResponse rm = []
            \<and> authRequestData.ProofKey rm = [] \<and> authRequestData.Passcode rm = []
            \<and> ExtAuthnDuoMethod rm = [])
       \<and> (authenticator = ''OKTA'' \<longrightarrow>
            RawSAMLResponse rm = samlResponse \<and> LoginName rm = []
            \<and> authRequestData.Password rm = [] \<and> authRequestData.Passcode rm = []
            \<and> ExtAuthnDuoMethod rm = [] \<and> authRequestData.Authenticator rm = []
            \<and> authRequestData.ProofKey rm = [] \<and> authRequestData.Token rm = []
            \<and> BrowserModeRedirectPort rm = [])
       \<and> (authenticator = ''EXTERNALBROWSER'' \<longrightarrow>
            authRequestData.Password rm = [] \<and> RawSAMLResponse rm = []
            \<and> authRequestData.Passcode rm = [] \<and> ExtAuthnDuoMethod rm = [])
       \<and> (authenticator \<notin> {''EXTERNALBROWSER'', ''OAUTH'', ''OKTA''} \<longrightarrow>
            authRequestData.Password rm = Config.Password c \<and> RawSAMLResponse rm = []
            \<and> authRequestData.ProofKey rm = [] \<and> authRequestData.Token rm = [])
       \<and> (authRequestData.Password rm \<noteq> [] \<longrightarrow>
            authenticator \<notin> {''EXTERNALBROWSER'', ''OAUTH'', ''OKTA''})"
  unfolding rm_def authenticator_def
  by (simp add: requestMain_def Let_def schemes)

theorem requestMain_scheme_fields_witness:
  "authRequestData.Password (requestMain example_env oauth_config ''<assertion/>'' ''pk''
     Map.empty) = []
   \<and> authRequestData.ProofKey (requestMain example_env oauth_config ''<assertion/>'' ''pk''
     Map.empty) = []
   \<and> RawSAMLResponse (requestMain example_env okta_config ''<assertion/>'' ''pk'' Map.empty)
     = ''<assertion/>''
   \<and> LoginName (requestMain example_env okta_config ''<assertion/>'' ''pk'' Map.empty) = []
   \<and> authRequestData.Password (requestMain example_env browser_config ''<assertion/>'' ''pk''
     Map.empty) = []
   \<and> authRequestData.Password (requestMain example_env example_config ''<assertion/>'' ''pk''
     Map.empty) = ''secret''
   \<and> authRequestData.Token (requestMain example_env example_config ''<assertion/>'' ''pk''
     Map.empty) = []"
proof -
  have o: "ToUpper (unicodeUpper example_env) (Config.Authenticator oauth_config) = ''OAUTH''"
    by (simp add: example_upper configs ToUpper_examples)
  have k: "ToUpper (unicodeUpper example_env) (Config.Authenticator okta_config) = ''OKTA''"
    by (simp add: example_upper configs ToUpper_examples)
  have b: "ToUpper (unicodeUpper example_env) (Config.Authenticator browser_config) =
      ''EXTERNALBROWSER''"
    by (simp add: example_upper configs ToUpper_examples)
  have d: "ToUpper (unicodeUpper example_env) (Config.Authenticator example_config) = []"
    by (simp add: example_upper configs ToUpper_examples)
  have p: "Config.Password example_config = ''secret''"
    by (simp add: example_config_def)
  from requestMain_scheme_fields [of example_env oauth_config "''<assertion/>''" "''pk''"
      Map.empty]
    requestMain_scheme_fields [of example_env okta_config "''<assertion/>''" "''pk''"
      Map.empty]
    requestMain_scheme_fields [of example_env browser_config "''<assertion/>''" "''pk''"
      Map.empty]
    requestMain_scheme_fields [of example_env example_config "''<assertion/>''" "''pk''"
      Map.empty]
    o k b d p
  show ?thesis by simp
qed

text \<open>
  Claim C7. In the default request with a standalone passcode configured: when the
  passcode-in-password flag is set too, the duo method is \<open>passcode\<close> and the passcode
  field is empty; when the flag is not set, the duo method is \<open>passcode\<close> and the
  passcode field holds the configured passcode.
\<close>

theorem requestMain_passcode:
  fixes E c samlResponse proofKey params
  defines "rm \<equiv> requestMain E c samlResponse proofKey params"
  assumes "ToUpper (unicodeUpper E) (Config.Authenticator c)
             \<notin> {''EXTERNALBROWSER'', ''OAUTH'', ''OKTA''}"
    and "Config.Passcode c \<noteq> []"
  shows "(PasscodeInPassword c \<longrightarrow>
            ExtAuthnDuoMethod rm = ''passcode'' \<and> authRequestData.Passcode rm = [])
       \<and> (\<not> PasscodeInPassword c \<longrightarrow>
            ExtAuthnDuoMethod rm = ''passcode''
            \<and> authRequestData.Passcode rm = Config.Passcode c)"
  using assms(2,3) unfolding rm_def
  by (simp add: requestMain_def Let_def schemes)

theorem requestMain_passcode_witness:
  "ExtAuthnDuoMethod (requestMain example_env passcode_in_password_config [] [] Map.empty)
     = ''passcode''
   \<and> authRequestData.Passcode
       (requestMain example_env passcode_in_password_config [] [] Map.empty) = []
   \<and> ExtAuthnDuoMethod (requestMain example_env passcode_config [] [] Map.empty)
     = ''passcode''
   \<and> authRequestData.Passcode (requestMain example_env passcode_config [] [] Map.empty)
     = ''123456''"
proof -
  have a1: "ToUpper (unicodeUpper example_env) (Config.Authenticator passcode_in_password_config)
      \<notin> {''EXTERNALBROWSER'', ''OAUTH'', ''OKTA''}"
    by (simp add: example_upper configs ToUpper_examples)
  have a2: "ToUpper (unicodeUpper example_env) (Config.Authenticator passcode_config)
      \<notin> {''EXTERNALBROWSER'', ''OAUTH'', ''OKTA''}"
    by (simp add: example_upper configs ToUpper_examples)
  have p1: "Config.Passcode passcode_in_password_config \<noteq> []"
    by (simp add: configs)
  have p2: "Config.Passcode passcode_config \<noteq> []"
    by (simp add: configs)
  have f1: "PasscodeInPassword passcode_in_password_config"
    by (simp add: configs)
  have f2: "\<not> PasscodeInPassword passcode_config"
    by (simp add: configs)
  have v: "Config.Passcode passcode_config = ''123456''"
    by (simp add: configs)
  from requestMain_passcode [OF a1 p1, of "[]" "[]" Map.empty]
    requestMain_passcode [OF a2 p2, of "[]" "[]" Map.empty] f1 f2 v
  show ?thesis by simp
qed

text \<open>
  Claim C10. The request's \<open>AUTHENTICATOR\<close> field is \<open>EXTERNALBROWSER\<close> for the
  external-browser authenticator and \<open>OAUTH\<close> for the OAuth authenticator; it is empty
  for the Okta authenticator and in the default request.
\<close>

theorem requestMain_Authenticator:
  fixes E c samlResponse proofKey params
  defines "rm \<equiv> requestMain E c samlResponse proofKey params"
    and "authenticator \<equiv> ToUpper (unicodeUpper E) (Config.Authenticator c)"
  shows "(authenticator = ''EXTERNALBROWSER'' \<longrightarrow>
            authRequestData.Authenticator rm = ''EXTERNALBROWSER'')
       \<and> (authenticator = ''OAUTH'' \<longrightarrow> authRequestData.Authenticator rm = ''OAUTH'')
       \<and> (authenticator = ''OKTA'' \<longrightarrow> authRequestData.Authenticator rm = [])
       \<and> (authenticator \<notin> {''EXTERNALBROWSER'', ''OAUTH'', ''OKTA''} \<longrightarrow>
            authRequestData.Authenticator rm = [])"
  unfolding rm_def authenticator_def
  by (simp add: requestMain_def Let_def schemes)

theorem requestMain_Authenticator_witness:
  "authRequestData.Authenticator (requestMain example_env browser_config [] [] Map.empty)
     = ''EXTERNALBROWSER''
   \<and> authRequestData.Authenticator (requestMain example_env oauth_config [] [] Map.empty)
     = ''OAUTH''
   \<and> authRequestData.Authenticator (requestMain example_env okta_config [] [] Map.empty) = []
   \<and> authRequestData.Authenticator (requestMain example_env example_config [] [] Map.empty)
     = []"
proof -
  have o: "ToUpper (unicodeUpper example_env) (Config.Authenticator oauth_config) = ''OAUTH''"
    by (simp add: example_upper configs ToUpper_examples)
  have k: "ToUpper (unicodeUpper example_env) (Config.Authenticator okta_config) = ''OKTA''"
    by (simp add: example_upper configs ToUpper_examples)
  have b: "ToUpper (unicodeUpper example_env) (Config.Authenticator browser_config) =
      ''EXTERNALBROWSER''"
    by (simp add: example_upper configs ToUpper_examples)
  have d: "ToUpper (unicodeUpper example_env) (Config.Authenticator example_config) = []"
    by (simp add: example_upper configs ToUpper_examples)
  from requestMain_Authenticator [of example_env browser_config "[]" "[]" Map.empty]
    requestMain_Authenticator [of example_env oauth_config "[]" "[]" Map.empty]
    requestMain_Authenticator [of example_env okta_config "[]" "[]" Map.empty]
    requestMain_Authenticator [of example_env example_config "[]" "[]" Map.empty]
    o k b d
  show ?thesis by simp
qed

subsection \<open>Session parameters\<close>


lemma sessionParameters_total:
  "list_all (\<lambda>kv. snd kv \<noteq> None) ps \<Longrightarrow> \<exists>m. sessionParameters E ps m0 = Some m"
  by (induction ps arbitrary: m0) auto





text \<open>
  The built request is the one \<open>authenticate\<close> marshals and posts.
\<close>

lemma transport_builtRequest:
  "transport E FuncPostAuth sc samlResponse proofKey =
     (case builtRequest E (cfg sc) samlResponse proofKey of
        None \<Rightarrow> None
      | Some req \<Rightarrow>
          (case json_Marshal E req of
             Inl err \<Rightarrow> None
           | Inr jsonBody \<Rightarrow>
               Some (FuncPostAuth (rest sc) (queryParams (cfg sc)) (getHeaders E) jsonBody
                       (LoginTimeout (rest sc)))))"
  by (simp add: transport_def builtRequest_def split: option.splits)




subsection \<open>authenticate returns\<close>

text \<open>
  The only panic of \<open>authenticate\<close> is the dereference of a \<open>nil\<close> parameter value:
  when \<open>Params\<close> holds none, every attempt returns.
\<close>

lemma authenticate_returns:
  assumes "list_all (\<lambda>kv. snd kv \<noteq> None) (Params (cfg sc))"
  shows "\<exists>rest' res. authenticate E FuncPostAuth sc samlResponse proofKey = Some (rest', res)"
proof -
  from sessionParameters_total [OF assms]
  obtain m where "sessionParameters E (Params (cfg sc)) Map.empty = Some m"
    by blast
  then show ?thesis
    by (simp add: authenticate_def Let_def split: sum.splits)
qed

end
